theory Spec2Isabelle
  imports Main
begin

section \<open>The gotest command-line bootstrap (src/go/main/main.go)\<close>

text \<open>
  The program is one sequential function, \<open>run\<close>, and a helper, \<open>getDataPath\<close>.
  Everything it does goes through the operating system, the Go standard library, the
  logger, the CLI framework and the repository's own config, database and update
  packages, none of which is part of main.go. The model therefore has two parts:
  \<^item> an environment \<open>env\<close>: what each of those calls returns in one run of the process
    (the oracle of the outside world);
  \<^item> a world \<open>world\<close>: what main.go's own statements have done so far (the config
    store as written by \<open>config.Set\<close>, the logger's level, the lines printed to the
    two output streams, the calls made in order with their outcomes, and the stack
    of deferred calls).
  A Go \<open>error\<close> is represented by its message; a call returning \<open>(T, error)\<close> is a
  value of \<open>err + T\<close> with \<open>Inl\<close> the error, and a call returning only \<open>error\<close> is
  a value of \<open>err + unit\<close>.
\<close>

subsection \<open>Constants\<close>

definition Name :: string where
  "Name = ''gotest''"

definition DefaultLogLevel :: string where
  "DefaultLogLevel = ''warn''"

definition DataIndexPath :: string where
  "DataIndexPath = ''/var/lib/'' @ Name @ ''/index''"

definition nl :: string where
  "nl = [CHR 0x0A]"

type_synonym err = string

subsection \<open>The configuration store\<close>

datatype cfgval = CStr string | CBool bool

type_synonym cfgstore = "string \<rightharpoonup> cfgval"

text \<open>
  Modelled from the spec: package config (goweb/go/database/config) is not among the
  sources. The spec describes the store as a mapping from string keys to typed values
  (string, bool); \<open>config.Get[T]\<close> is the typed lookup, failing on a missing key and on
  a value of another type.
\<close>

definition configGetString :: "cfgstore \<Rightarrow> string \<Rightarrow> err + string" where
  "configGetString st key =
     (case st key of
        None \<Rightarrow> Inl (''config key not found: '' @ key)
      | Some (CStr s) \<Rightarrow> Inr s
      | Some (CBool b) \<Rightarrow> Inl (''config key has another type: '' @ key))"

definition configGetBool :: "cfgstore \<Rightarrow> string \<Rightarrow> err + bool" where
  "configGetBool st key =
     (case st key of
        None \<Rightarrow> Inl (''config key not found: '' @ key)
      | Some (CBool b) \<Rightarrow> Inr b
      | Some (CStr s) \<Rightarrow> Inl (''config key has another type: '' @ key))"

subsection \<open>The environment of one run\<close>

record env =
  geteuid :: int
    \<comment> \<open>\<open>os.Geteuid()\<close>\<close>
  osOpen :: "err + (string list \<times> err option)"
    \<comment> \<open>\<open>os.Open(DataIndexPath)\<close>: the error, or for the opened file the tokens that
        \<open>sc.Scan()\<close> delivers one by one until it returns false, and then \<open>sc.Err()\<close>\<close>
  userHomeDir :: "err + string"
    \<comment> \<open>\<open>os.UserHomeDir()\<close>\<close>
  filepathJoin :: "string \<Rightarrow> string \<Rightarrow> string"
    \<comment> \<open>\<open>filepath.Join\<close> on two elements\<close>
  mkdirAll :: "string \<Rightarrow> err + unit"
    \<comment> \<open>\<open>os.MkdirAll(path, 0755)\<close>\<close>
  xlogNew :: "string \<Rightarrow> string \<Rightarrow> err + unit"
    \<comment> \<open>\<open>xlog.New(logPath, level)\<close>\<close>
  databaseNew :: "err + unit"
    \<comment> \<open>\<open>database.New(ctx)\<close>\<close>
  configInit :: "err + unit"
    \<comment> \<open>\<open>config.Init(ctx)\<close>\<close>
  cfgStore :: cfgstore
    \<comment> \<open>the persisted config store as \<open>config.Init\<close> leaves it\<close>
  configSetErr :: "string \<Rightarrow> cfgval \<Rightarrow> err option"
    \<comment> \<open>the error \<open>config.Set(ctx, key, value)\<close> returns, if any\<close>
  logSetLevel :: "string \<Rightarrow> err + unit"
    \<comment> \<open>\<open>log.SetLevel(level)\<close>: whether the logger accepts the level\<close>
  timeParse :: "string \<Rightarrow> err + int"
    \<comment> \<open>\<open>time.Parse(time.RFC3339, s)\<close>; an instant is a number of nanoseconds\<close>
  timeFormat :: "int \<Rightarrow> string"
    \<comment> \<open>\<open>t.Format(time.RFC3339)\<close>\<close>
  nowSince :: int
    \<comment> \<open>the clock as \<open>time.Since\<close> reads it on line 125\<close>
  nowSet :: int
    \<comment> \<open>the clock as \<open>time.Now()\<close> reads it on line 129\<close>
  updateCheck :: "err + bool"
    \<comment> \<open>\<open>update.Check(ctx)\<close>\<close>
  cliParse :: "err + string option"
    \<comment> \<open>the framework's reading of \<open>os.Args\<close>: an error, or the value given to
        \<open>--log\<close> when the flag is present\<close>
  cmdAction :: "err + unit"
    \<comment> \<open>what the dispatched action returns\<close>

subsection \<open>The world: effects of main.go's statements\<close>

datatype call =
    GetDataPath
  | MkdirAll string
  | XlogNew string string
  | DatabaseNew
  | ConfigInit
  | ConfigGet string
  | LogSetLevel string
  | TimeParse string
  | ConfigSet string cfgval
  | UpdateCheck
  | Command
  | AppRun

datatype deferred = Stop | LogClose | DbClose

datatype event =
    Call call "err option"
  | Debug string
  | LogError err
  | Deferred deferred

record world =
  store :: cfgstore
  logger :: "string option"
  stdout :: "string list"
  stderr :: "string list"
  trace :: "event list"
  defers :: "deferred list"

definition world0 :: "env \<Rightarrow> world" where
  "world0 e = \<lparr>store = cfgStore e, logger = None, stdout = [], stderr = [],
                trace = [], defers = []\<rparr>"

definition emit :: "event \<Rightarrow> world \<Rightarrow> world" where
  "emit ev w = w\<lparr>trace := trace w @ [ev]\<rparr>"

definition eprint :: "string \<Rightarrow> world \<Rightarrow> world" where
  "eprint s w = w\<lparr>stderr := stderr w @ [s]\<rparr>"

definition println :: "string \<Rightarrow> world \<Rightarrow> world" where
  "println s w = w\<lparr>stdout := stdout w @ [s @ nl]\<rparr>"

definition go_defer :: "deferred \<Rightarrow> world \<Rightarrow> world" where
  "go_defer d w = w\<lparr>defers := d # defers w\<rparr>"

text \<open>Deferred calls run last in, first out when \<open>run\<close> returns.\<close>

definition run_deferred :: "world \<Rightarrow> world" where
  "run_deferred w = w\<lparr>trace := trace w @ map Deferred (defers w), defers := []\<rparr>"

text \<open>
  The idiom of every step of \<open>run\<close>:
  \<^verbatim>\<open>v, err := call(); if err != nil { fmt.Fprintf(os.Stderr, "msg: %s\n", err); return 1 }\<close>
  The result of a piece of \<open>run\<close> is \<open>(Some code, w)\<close> when it returned \<open>code\<close>, and
  \<open>(None, w)\<close> when control goes on to the next statement.
\<close>

definition attempt ::
  "call \<Rightarrow> err + 'a \<Rightarrow> string \<Rightarrow> ('a \<Rightarrow> world \<Rightarrow> int option \<times> world) \<Rightarrow> world
     \<Rightarrow> int option \<times> world" where
  "attempt c r msg k w =
     (case r of
        Inl err \<Rightarrow> (Some 1, eprint (msg @ err @ nl) (emit (Call c (Some err)) w))
      | Inr v \<Rightarrow> k v (emit (Call c None) w))"

subsection \<open>getDataPath (lines 185-214)\<close>

text \<open>
  The loop \<^verbatim>\<open>for sc.Scan() { lines = append(lines, sc.Text()) }\<close> over the tokens the
  scanner delivers. With the default split function a token is a line of the file
  without its end-of-line marker.
\<close>

fun scan_loop :: "string list \<Rightarrow> string list \<Rightarrow> string list" where
  "scan_loop [] lines = lines"
| "scan_loop (tok # rest) lines = scan_loop rest (lines @ [tok])"

definition getDataPath :: "env \<Rightarrow> err + string" where
  "getDataPath e =
     (if geteuid e = 0 then
        (case osOpen e of
           Inl err \<Rightarrow> Inl (''failed to open '' @ DataIndexPath @ '': '' @ err)
         | Inr (toks, scErr) \<Rightarrow>
             (let lines = scan_loop toks [] in
              case scErr of
                Some err \<Rightarrow> Inl (''failed reading '' @ DataIndexPath @ '': '' @ err)
              | None \<Rightarrow>
                  if length lines < 2
                  then Inl (''malformed index file '' @ DataIndexPath)
                  else Inr (lines ! 1)))
      else
        (case userHomeDir e of
           Inl err \<Rightarrow> Inl (''cannot determine home dir: '' @ err)
         | Inr home \<Rightarrow> Inr (filepathJoin e home (''.'' @ Name))))"

subsection \<open>Durations\<close>

text \<open>
  A \<open>time.Duration\<close> is a signed 64-bit count of nanoseconds; \<open>Time.Sub\<close> returns the
  largest or the smallest duration when the difference does not fit, and
  \<open>time.Since(t)\<close> is \<open>time.Now().Sub(t)\<close>.
\<close>

definition Hour :: int where
  "Hour = 3600 * 1000000000"

definition maxDuration :: int where
  "maxDuration = 2 ^ 63 - 1"

definition minDuration :: int where
  "minDuration = - (2 ^ 63)"

definition time_sub :: "int \<Rightarrow> int \<Rightarrow> int" where
  "time_sub t u =
     (let d = t - u in
      if maxDuration < d then maxDuration
      else if d < minDuration then minDuration
      else d)"

definition since :: "env \<Rightarrow> int \<Rightarrow> int" where
  "since e t = time_sub (nowSince e) t"

subsection \<open>run, lines 47-103: data path, logger, database, config, log level\<close>

text \<open>
  The blocks of \<open>run\<close> are defined last to first, each under the comment it carries in
  the source; a block ends by handing the world to the next one.
\<close>

text \<open>\<^verbatim>\<open>// set log level\<close> (lines 94-103)\<close>

definition set_log_level :: "env \<Rightarrow> world \<Rightarrow> int option \<times> world" where
  "set_log_level e w =
     attempt (ConfigGet ''logLevel'') (configGetString (store w) ''logLevel'')
       ''failed to get log level from config: ''
       (\<lambda>cfgLogLevel.
          attempt (LogSetLevel cfgLogLevel) (logSetLevel e cfgLogLevel)
            ''failed to set log level: ''
            (\<lambda>_ w'. (None, w'\<lparr>logger := Some cfgLogLevel\<rparr>)))
       w"

text \<open>\<^verbatim>\<open>// init config\<close> (lines 86-92)\<close>

definition init_config :: "env \<Rightarrow> world \<Rightarrow> int option \<times> world" where
  "init_config e w =
     attempt ConfigInit (configInit e) ''failed to initialize config: ''
       (\<lambda>_ w'. set_log_level e (emit (Debug ''Config initialized'') w'))
       w"

text \<open>\<^verbatim>\<open>// init database\<close> (lines 76-84)\<close>

definition init_database :: "env \<Rightarrow> world \<Rightarrow> int option \<times> world" where
  "init_database e w =
     attempt DatabaseNew (databaseNew e) ''failed to initialize database: ''
       (\<lambda>_ w'. init_config e (emit (Debug ''Database initialized'') (go_defer DbClose w')))
       w"

text \<open>\<^verbatim>\<open>// get log path\<close> and \<^verbatim>\<open>// init logger\<close> (lines 60-74)\<close>

definition init_logger :: "env \<Rightarrow> string \<Rightarrow> world \<Rightarrow> int option \<times> world" where
  "init_logger e dataPath w =
     (let logPath = filepathJoin e dataPath ''logs'' in
      attempt (MkdirAll logPath) (mkdirAll e logPath) ''failed to create log path: ''
        (\<lambda>_.
           attempt (XlogNew logPath DefaultLogLevel) (xlogNew e logPath DefaultLogLevel)
             ''failed to initialize logger: ''
             (\<lambda>_ w'.
                init_database e (go_defer LogClose (w'\<lparr>logger := Some DefaultLogLevel\<rparr>))))
        w)"

text \<open>\<^verbatim>\<open>// get data path\<close> and \<^verbatim>\<open>// create data dir\<close> (lines 47-58)\<close>

definition run_init :: "env \<Rightarrow> world \<Rightarrow> int option \<times> world" where
  "run_init e w =
     attempt GetDataPath (getDataPath e) ''failed to get data path: ''
       (\<lambda>dataPath.
          attempt (MkdirAll dataPath) (mkdirAll e dataPath) ''failed to create data path: ''
            (\<lambda>_. init_logger e dataPath))
       w"

subsection \<open>run, lines 105-143: the update check\<close>

text \<open>
  Modelled from the spec: \<open>config.Set\<close> is not among the sources. A successful call
  stores the value under the key; a failing one leaves the store as it was.
\<close>

definition configSet :: "env \<Rightarrow> cfgstore \<Rightarrow> string \<Rightarrow> cfgval \<Rightarrow> err + cfgstore" where
  "configSet e st key v =
     (case configSetErr e key v of
        Some err \<Rightarrow> Inl err
      | None \<Rightarrow> Inr (st(key \<mapsto> v)))"

definition notice :: string where
  "notice = ''Update available! Run 'goweb update check' to see details.''"

text \<open>The body of \<^verbatim>\<open>if time.Since(t) > 24*time.Hour\<close> (lines 126-141)\<close>

definition check_for_updates :: "env \<Rightarrow> world \<Rightarrow> int option \<times> world" where
  "check_for_updates e w =
     attempt (ConfigSet ''lastUpdateCheck'' (CStr (timeFormat e (nowSet e))))
       (configSet e (store w) ''lastUpdateCheck'' (CStr (timeFormat e (nowSet e))))
       ''failed to set lastUpdateCheck in config: ''
       (\<lambda>st w'.
          attempt UpdateCheck (updateCheck e) ''failed to check for updates: ''
            (\<lambda>updateAvailable w''.
               (None, if updateAvailable then println notice w'' else w''))
            (w'\<lparr>store := st\<rparr>))
       (emit (Debug ''Checking for updates...'') w)"

text \<open>\<^verbatim>\<open>// Update check\<close> (lines 105-143)\<close>

definition run_update :: "env \<Rightarrow> world \<Rightarrow> int option \<times> world" where
  "run_update e w =
     attempt (ConfigGet ''updateNotify'') (configGetBool (store w) ''updateNotify'')
       ''failed to get updateNotify from config: ''
       (\<lambda>updateNotify w'.
          if updateNotify then
            attempt (ConfigGet ''lastUpdateCheck'')
              (configGetString (store w') ''lastUpdateCheck'')
              ''failed to get lastUpdateCheck from config: ''
              (\<lambda>tStr.
                 attempt (TimeParse tStr) (timeParse e tStr)
                   ''failed to parse lastUpdateCheck time: ''
                   (\<lambda>t w''.
                      if 24 * Hour < since e t then check_for_updates e w''
                      else (None, w'')))
              w'
          else (None, w'))
       w"

subsection \<open>run, lines 145-182: the CLI application\<close>

text \<open>\<open>cmd.String("log")\<close>: the flag's value, or its default when the flag is absent.\<close>

definition cmdString_log :: "string option \<Rightarrow> string" where
  "cmdString_log flag = (case flag of None \<Rightarrow> DefaultLogLevel | Some v \<Rightarrow> v)"

text \<open>The \<open>Before\<close> hook (lines 165-173).\<close>

definition before_hook :: "env \<Rightarrow> string option \<Rightarrow> world \<Rightarrow> err option \<times> world" where
  "before_hook e flag w =
     (let logLevel = cmdString_log flag in
      if logLevel \<noteq> DefaultLogLevel then
        (case logSetLevel e logLevel of
           Inl err \<Rightarrow> (Some err, emit (Call (LogSetLevel logLevel) (Some err)) w)
         | Inr _ \<Rightarrow>
             (None, (emit (Call (LogSetLevel logLevel) None) w)\<lparr>logger := Some logLevel\<rparr>))
      else (None, w))"

text \<open>
  Modelled from the spec: \<open>app.Run(ctx, os.Args)\<close>. Neither the framework (urfave/cli)
  nor package commands is among the sources; of their contract the model keeps what
  the spec states: the arguments are parsed, then the \<open>Before\<close> hook runs, and only when
  it returns no error does an action execute. What the action itself does lies outside
  main.go and is represented by the error it returns.
\<close>

definition app_Run :: "env \<Rightarrow> world \<Rightarrow> err option \<times> world" where
  "app_Run e w =
     (case cliParse e of
        Inl err \<Rightarrow> (Some err, w)
      | Inr flag \<Rightarrow>
          (case before_hook e flag w of
             (Some err, w') \<Rightarrow> (Some err, w')
           | (None, w') \<Rightarrow>
               (case cmdAction e of
                  Inl err \<Rightarrow> (Some err, emit (Call Command (Some err)) w')
                | Inr _ \<Rightarrow> (None, emit (Call Command None) w'))))"

text \<open>\<^verbatim>\<open>// run app\<close> (lines 176-182)\<close>

definition run_app :: "env \<Rightarrow> world \<Rightarrow> int \<times> world" where
  "run_app e w =
     (case app_Run e w of
        (Some err, w') \<Rightarrow>
          (1, eprint (err @ nl) (emit (LogError err) (emit (Call AppRun (Some err)) w')))
      | (None, w') \<Rightarrow> (0, emit (Call AppRun None) w'))"

subsection \<open>run and main\<close>

definition startup :: "env \<Rightarrow> world \<Rightarrow> int option \<times> world" where
  "startup e w =
     (case run_init e w of
        (Some code, w') \<Rightarrow> (Some code, w')
      | (None, w') \<Rightarrow> run_update e w')"

definition run :: "env \<Rightarrow> int \<times> world" where
  "run e =
     (case startup e (go_defer Stop (world0 e)) of
        (Some code, w) \<Rightarrow> (code, run_deferred w)
      | (None, w) \<Rightarrow> (case run_app e w of (code, w') \<Rightarrow> (code, run_deferred w')))"

text \<open>\<open>main\<close> is \<open>os.Exit(run())\<close>: the exit code of the process.\<close>

definition exit_code :: "env \<Rightarrow> int" where
  "exit_code e = fst (run e)"

subsection \<open>Observations on a run\<close>

text \<open>
  The claims are stated on what a run leaves behind: its exit code and its final world.
  The predicates below select calls from the trace; \<open>reaches_update\<close> and \<open>reaches_app\<close>
  say that \<open>run\<close> got as far as line 105 and as far as line 145.
\<close>

fun is_check :: "event \<Rightarrow> bool" where
  "is_check (Call UpdateCheck r) = True"
| "is_check _ = False"

fun is_set :: "event \<Rightarrow> bool" where
  "is_set (Call (ConfigSet k v) r) = True"
| "is_set _ = False"

definition is_upd :: "event \<Rightarrow> bool" where
  "is_upd ev = (is_set ev \<or> is_check ev)"

fun is_level :: "event \<Rightarrow> bool" where
  "is_level (Call (LogSetLevel l) r) = True"
| "is_level _ = False"

fun is_command :: "event \<Rightarrow> bool" where
  "is_command (Call Command r) = True"
| "is_command _ = False"

definition is_level_or_command :: "event \<Rightarrow> bool" where
  "is_level_or_command ev = (is_level ev \<or> is_command ev)"

fun is_failure :: "event \<Rightarrow> bool" where
  "is_failure (Call c (Some err)) = True"
| "is_failure _ = False"

fun reads_stamp :: "event \<Rightarrow> bool" where
  "reads_stamp (Call (ConfigGet key) r) = (key = ''lastUpdateCheck'')"
| "reads_stamp (Call (TimeParse s) r) = True"
| "reads_stamp _ = False"

definition outcome :: "err + 'a \<Rightarrow> err option" where
  "outcome r = (case r of Inl err \<Rightarrow> Some err | Inr v \<Rightarrow> None)"

text \<open>The value line 129 hands to \<open>config.Set\<close>.\<close>

definition newStamp :: "env \<Rightarrow> cfgval" where
  "newStamp e = CStr (timeFormat e (nowSet e))"

definition parses :: "env \<Rightarrow> string \<Rightarrow> bool" where
  "parses e s = (case timeParse e s of Inr t \<Rightarrow> True | Inl err \<Rightarrow> False)"

definition stamp_valid :: "env \<Rightarrow> cfgstore \<Rightarrow> bool" where
  "stamp_valid e st =
     (case st ''lastUpdateCheck'' of
        Some (CStr s) \<Rightarrow> parses e s
      | Some (CBool b) \<Rightarrow> False
      | None \<Rightarrow> False)"

definition reaches_update :: "env \<Rightarrow> bool" where
  "reaches_update e = (fst (run_init e (go_defer Stop (world0 e))) = None)"

definition reaches_app :: "env \<Rightarrow> bool" where
  "reaches_app e = (fst (startup e (go_defer Stop (world0 e))) = None)"

text \<open>
  Which steps of \<open>run\<close> return an error, read off the environment alone. A step is
  counted when \<open>run\<close> gets to it provided the steps before it succeeded: a directory is
  created only for a resolved data path, the timestamp is read only with
  \<open>updateNotify\<close> true, the timestamp is written and the update checked only when the
  check is due.
\<close>

definition is_error :: "err + 'a \<Rightarrow> bool" where
  "is_error r = (case r of Inl err \<Rightarrow> True | Inr v \<Rightarrow> False)"

definition path_resolution_fails :: "env \<Rightarrow> bool" where
  "path_resolution_fails e = is_error (getDataPath e)"

definition directory_creation_fails :: "env \<Rightarrow> bool" where
  "directory_creation_fails e =
     (case getDataPath e of
        Inl err \<Rightarrow> False
      | Inr dataPath \<Rightarrow>
          is_error (mkdirAll e dataPath) \<or>
          is_error (mkdirAll e (filepathJoin e dataPath ''logs'')))"

definition logger_fails :: "env \<Rightarrow> bool" where
  "logger_fails e =
     ((case getDataPath e of
         Inl err \<Rightarrow> False
       | Inr dataPath \<Rightarrow>
           is_error (xlogNew e (filepathJoin e dataPath ''logs'') DefaultLogLevel)) \<or>
      (case configGetString (cfgStore e) ''logLevel'' of
         Inl err \<Rightarrow> False
       | Inr cfgLogLevel \<Rightarrow> is_error (logSetLevel e cfgLogLevel)))"

definition database_fails :: "env \<Rightarrow> bool" where
  "database_fails e = is_error (databaseNew e)"

definition config_init_fails :: "env \<Rightarrow> bool" where
  "config_init_fails e = is_error (configInit e)"

definition notify_on :: "env \<Rightarrow> bool" where
  "notify_on e = (configGetBool (cfgStore e) ''updateNotify'' = Inr True)"

definition config_read_fails :: "env \<Rightarrow> bool" where
  "config_read_fails e =
     (is_error (configGetString (cfgStore e) ''logLevel'') \<or>
      is_error (configGetBool (cfgStore e) ''updateNotify'') \<or>
      (notify_on e \<and> is_error (configGetString (cfgStore e) ''lastUpdateCheck'')))"

definition stamp_parse_fails :: "env \<Rightarrow> bool" where
  "stamp_parse_fails e =
     (notify_on e \<and>
      (case configGetString (cfgStore e) ''lastUpdateCheck'' of
         Inl err \<Rightarrow> False
       | Inr tStr \<Rightarrow> is_error (timeParse e tStr)))"

definition check_due :: "env \<Rightarrow> bool" where
  "check_due e =
     (notify_on e \<and>
      (case configGetString (cfgStore e) ''lastUpdateCheck'' of
         Inl err \<Rightarrow> False
       | Inr tStr \<Rightarrow>
           (case timeParse e tStr of
              Inl err \<Rightarrow> False
            | Inr t \<Rightarrow> 24 * Hour < nowSince e - t)))"

definition stamp_write_fails :: "env \<Rightarrow> bool" where
  "stamp_write_fails e =
     (check_due e \<and> configSetErr e ''lastUpdateCheck'' (newStamp e) \<noteq> None)"

definition update_check_fails :: "env \<Rightarrow> bool" where
  "update_check_fails e = (check_due e \<and> is_error (updateCheck e))"

definition command_fails :: "env \<Rightarrow> bool" where
  "command_fails e =
     (case cliParse e of
        Inl err \<Rightarrow> True
      | Inr flag \<Rightarrow>
          (cmdString_log flag \<noteq> DefaultLogLevel \<and>
           is_error (logSetLevel e (cmdString_log flag))) \<or>
          is_error (cmdAction e))"

text \<open>The errors of lines 47-103 and those of lines 105-143.\<close>

definition init_error :: "env \<Rightarrow> bool" where
  "init_error e =
     (path_resolution_fails e \<or> directory_creation_fails e \<or> logger_fails e \<or>
      database_fails e \<or> config_init_fails e \<or>
      is_error (configGetString (cfgStore e) ''logLevel''))"

definition update_error :: "env \<Rightarrow> bool" where
  "update_error e =
     (is_error (configGetBool (cfgStore e) ''updateNotify'') \<or>
      (notify_on e \<and> is_error (configGetString (cfgStore e) ''lastUpdateCheck'')) \<or>
      stamp_parse_fails e \<or> stamp_write_fails e \<or> update_check_fails e)"

text \<open>
  The same environment and the same world with another value (or none) stored under
  \<open>lastUpdateCheck\<close>.
\<close>

definition with_stamp :: "cfgval option \<Rightarrow> env \<Rightarrow> env" where
  "with_stamp x e = e\<lparr>cfgStore := (cfgStore e)(''lastUpdateCheck'' := x)\<rparr>"

definition forget_stamp :: "cfgval option \<Rightarrow> world \<Rightarrow> world" where
  "forget_stamp x w = w\<lparr>store := (store w)(''lastUpdateCheck'' := x)\<rparr>"

subsection \<open>Sample environments\<close>

text \<open>
  \<open>env_user\<close>: an unprivileged user whose last check was on 2026-10-01, started on
  2026-10-30 with the network up and every call succeeding. The others differ from it
  in the fields named.
\<close>

definition sample_parse :: "string \<Rightarrow> err + int" where
  "sample_parse s =
     (if s = ''2026-10-01T00:00:00Z'' then Inr 1790812800000000000
      else if s = ''2026-10-30T00:00:00Z'' then Inr 1793318400000000000
      else Inl ''cannot parse'')"

definition sample_levels :: "string \<Rightarrow> err + unit" where
  "sample_levels l =
     (if l \<in> set [''debug'', ''info'', ''warn'', ''error'', ''none''] then Inr ()
      else Inl ''invalid log level'')"

definition env_user :: env where
  "env_user =
     \<lparr>geteuid = 1000,
      osOpen = Inl ''no such file or directory'',
      userHomeDir = Inr ''/home/u'',
      filepathJoin = (\<lambda>a b. a @ ''/'' @ b),
      mkdirAll = (\<lambda>p. Inr ()),
      xlogNew = (\<lambda>p l. Inr ()),
      databaseNew = Inr (),
      configInit = Inr (),
      cfgStore = [''logLevel'' \<mapsto> CStr ''info'', ''updateNotify'' \<mapsto> CBool True,
                  ''lastUpdateCheck'' \<mapsto> CStr ''2026-10-01T00:00:00Z''],
      configSetErr = (\<lambda>k v. None),
      logSetLevel = sample_levels,
      timeParse = sample_parse,
      timeFormat = (\<lambda>t. ''2026-10-30T00:00:00Z''),
      nowSince = 1793318400000000000,
      nowSet = 1793318400000000000,
      updateCheck = Inr True,
      cliParse = Inr None,
      cmdAction = Inr ()\<rparr>"

definition env_offline :: env where
  "env_offline = env_user\<lparr>updateCheck := Inl ''network unreachable''\<rparr>"

definition env_root :: env where
  "env_root = env_user\<lparr>geteuid := 0, osOpen := Inr ([''gotest index'', ''/srv/gotest''], None)\<rparr>"

definition env_root_short :: env where
  "env_root_short = env_user\<lparr>geteuid := 0, osOpen := Inr ([''gotest index''], None)\<rparr>"

definition env_quiet :: env where
  "env_quiet = env_user\<lparr>cfgStore := (cfgStore env_user)(''updateNotify'' \<mapsto> CBool False)\<rparr>"

definition env_garbled :: env where
  "env_garbled =
     env_user\<lparr>cfgStore := (cfgStore env_user)(''updateNotify'' \<mapsto> CBool False,
       ''lastUpdateCheck'' \<mapsto> CStr ''yesterday'')\<rparr>"

definition env_garbled_notify :: env where
  "env_garbled_notify =
     env_user\<lparr>cfgStore := (cfgStore env_user)(''lastUpdateCheck'' \<mapsto> CStr ''yesterday'')\<rparr>"

definition env_fresh :: env where
  "env_fresh = env_user\<lparr>nowSince := 1790816400000000000, nowSet := 1790816400000000000\<rparr>"

definition env_debug_flag :: env where
  "env_debug_flag = env_user\<lparr>cliParse := Inr (Some ''debug'')\<rparr>"

definition env_warn_flag :: env where
  "env_warn_flag =
     env_user\<lparr>cliParse := Inr (Some ''warn''),
       cfgStore := (cfgStore env_user)(''logLevel'' \<mapsto> CStr ''debug'')\<rparr>"

definition env_nodb :: env where
  "env_nodb = env_user\<lparr>databaseNew := Inl ''database is locked''\<rparr>"

definition env_badcmd :: env where
  "env_badcmd = env_user\<lparr>cmdAction := Inl ''update failed''\<rparr>"

section \<open>Auxiliary facts\<close>

lemmas blocks = run_init_def init_logger_def init_database_def init_config_def set_log_level_def

lemmas upd_blocks = run_update_def check_for_updates_def

lemmas app_blocks = run_app_def app_Run_def before_hook_def

lemmas prims = attempt_def emit_def eprint_def println_def go_defer_def

lemmas model_defs =
  run_def startup_def run_init_def init_logger_def init_database_def init_config_def
  set_log_level_def run_update_def check_for_updates_def run_app_def app_Run_def
  before_hook_def cmdString_log_def attempt_def emit_def eprint_def println_def go_defer_def
  run_deferred_def world0_def getDataPath_def configGetString_def configGetBool_def
  configSet_def since_def time_sub_def Hour_def maxDuration_def minDuration_def
  DefaultLogLevel_def DataIndexPath_def Name_def nl_def exit_code_def

lemmas sample_defs =
  env_user_def env_offline_def env_root_def env_root_short_def env_quiet_def env_garbled_def
  env_garbled_notify_def env_fresh_def env_debug_flag_def env_warn_flag_def env_nodb_def
  env_badcmd_def sample_parse_def sample_levels_def

lemmas step_defs =
  path_resolution_fails_def directory_creation_fails_def logger_fails_def database_fails_def
  config_init_fails_def config_read_fails_def stamp_parse_fails_def stamp_write_fails_def
  update_check_fails_def command_fails_def notify_on_def check_due_def is_error_def

subsection \<open>The scanner loop and the 24-hour test\<close>

lemma scan_loop_append: "scan_loop toks lines = lines @ toks"
  by (induction toks arbitrary: lines) simp_all

text \<open>Saturation of the duration does not change the outcome of the comparison.\<close>

lemma since_day: "24 * Hour < since e t \<longleftrightarrow> 24 * Hour < nowSince e - t"
  by (simp add: since_def time_sub_def Let_def Hour_def maxDuration_def minDuration_def)

subsection \<open>What each block of run leaves unchanged\<close>

lemma filter_deferred [simp]:
  "filter is_upd (map Deferred ds) = []"
  "filter is_check (map Deferred ds) = []"
  "filter is_set (map Deferred ds) = []"
  "filter is_level (map Deferred ds) = []"
  "filter is_command (map Deferred ds) = []"
  "filter is_level_or_command (map Deferred ds) = []"
  "filter reads_stamp (map Deferred ds) = []"
  "list_ex is_failure (map Deferred ds) = False"
  by (induction ds) (simp_all add: is_upd_def is_level_or_command_def)

lemma filter_set_upd: "filter is_upd xs = ys \<Longrightarrow> filter is_set xs = filter is_set ys"
  by (induction xs arbitrary: ys) (auto simp: is_upd_def)

lemma filter_check_upd: "filter is_upd xs = ys \<Longrightarrow> filter is_check xs = filter is_check ys"
  by (induction xs arbitrary: ys) (auto simp: is_upd_def)

lemma set_events: "ev \<in> set xs \<Longrightarrow> is_set ev \<Longrightarrow> filter is_set xs = ys \<Longrightarrow> ev \<in> set ys"
  by auto

lemma entry_simps [simp]:
  "store (go_defer Stop (world0 e)) = cfgStore e"
  "stdout (go_defer Stop (world0 e)) = []"
  "stderr (go_defer Stop (world0 e)) = []"
  "trace (go_defer Stop (world0 e)) = []"
  by (simp_all add: go_defer_def world0_def)

lemma run_deferred_simps [simp]:
  "store (run_deferred w) = store w"
  "stdout (run_deferred w) = stdout w"
  "stderr (run_deferred w) = stderr w"
  "logger (run_deferred w) = logger w"
  "trace (run_deferred w) = trace w @ map Deferred (defers w)"
  by (simp_all add: run_deferred_def)

lemma run_init_frame:
  "run_init e w = (r, w') \<Longrightarrow>
     store w' = store w \<and> stdout w' = stdout w \<and>
     filter is_upd (trace w') = filter is_upd (trace w) \<and>
     filter is_set (trace w') = filter is_set (trace w) \<and>
     filter reads_stamp (trace w') = filter reads_stamp (trace w) \<and>
     filter is_command (trace w') = filter is_command (trace w)"
  by (auto simp: blocks prims is_upd_def Let_def configGetString_def
      split: sum.splits option.splits cfgval.splits)

lemma run_init_result:
  "run_init e w = (r, w') \<Longrightarrow>
     (r = Some 1 \<and> stderr w' \<noteq> []) \<or> (r = None \<and> stderr w' = stderr w)"
  by (auto simp: blocks prims Let_def split: sum.splits)

lemma run_init_levels:
  "run_init e w = (None, w') \<Longrightarrow>
     \<exists>l. store w ''logLevel'' = Some (CStr l) \<and> logger w' = Some l \<and>
       filter is_level_or_command (trace w') =
         filter is_level_or_command (trace w) @ [Call (LogSetLevel l) None]"
  by (auto simp: blocks prims configGetString_def Let_def is_level_or_command_def
      split: sum.splits option.splits cfgval.splits)

lemma run_init_failure:
  "run_init e w = (r, w') \<Longrightarrow> \<not> list_ex is_failure (trace w) \<Longrightarrow>
     (r = Some 1 \<and> list_ex is_failure (trace w')) \<or>
     (r = None \<and> \<not> list_ex is_failure (trace w'))"
  by (auto simp: blocks prims Let_def split: sum.splits)

lemma run_update_frame:
  "run_update e w = (r, w') \<Longrightarrow>
     logger w' = logger w \<and>
     filter is_level_or_command (trace w') = filter is_level_or_command (trace w) \<and>
     filter is_command (trace w') = filter is_command (trace w)"
  by (auto simp: upd_blocks prims is_level_or_command_def split: sum.splits if_splits)

lemma run_update_result:
  "run_update e w = (r, w') \<Longrightarrow>
     (r = Some 1 \<and> stderr w' \<noteq> []) \<or> (r = None \<and> stderr w' = stderr w)"
  by (auto simp: upd_blocks prims split: sum.splits if_splits)

lemma run_update_failure:
  "run_update e w = (r, w') \<Longrightarrow> \<not> list_ex is_failure (trace w) \<Longrightarrow>
     (r = Some 1 \<and> list_ex is_failure (trace w')) \<or>
     (r = None \<and> \<not> list_ex is_failure (trace w'))"
  by (auto simp: upd_blocks prims split: sum.splits if_splits)

lemma run_app_frame:
  "run_app e w = (c, w') \<Longrightarrow>
     store w' = store w \<and> stdout w' = stdout w \<and>
     filter is_upd (trace w') = filter is_upd (trace w) \<and>
     filter is_set (trace w') = filter is_set (trace w) \<and>
     filter reads_stamp (trace w') = filter reads_stamp (trace w)"
  by (auto simp: app_blocks prims is_upd_def Let_def split: sum.splits if_splits)

lemma run_app_failure:
  "run_app e w = (c, w') \<Longrightarrow> \<not> list_ex is_failure (trace w) \<Longrightarrow>
     (c = 1 \<and> list_ex is_failure (trace w')) \<or> (c = 0 \<and> \<not> list_ex is_failure (trace w'))"
  by (auto simp: app_blocks prims Let_def split: sum.splits if_splits)

subsection \<open>The course of a run\<close>

lemma startup_failure:
  assumes "startup e w = (r, w')" and "\<not> list_ex is_failure (trace w)"
  shows "(r = Some 1 \<and> list_ex is_failure (trace w')) \<or>
         (r = None \<and> \<not> list_ex is_failure (trace w'))"
proof -
  obtain r1 w1 where i: "run_init e w = (r1, w1)"
    by (cases "run_init e w")
  from run_init_failure [OF i assms(2)] show ?thesis
  proof
    assume "r1 = Some 1 \<and> list_ex is_failure (trace w1)"
    with i assms(1) show ?thesis
      by (simp add: startup_def)
  next
    assume ok: "r1 = None \<and> \<not> list_ex is_failure (trace w1)"
    with i assms(1) have u: "run_update e w1 = (r, w')"
      by (simp add: startup_def)
    from run_update_failure [OF u] ok show ?thesis
      by simp
  qed
qed

lemma run_cases [case_names init_fails update_fails app]:
  obtains
    (init_fails) w1 where
      "run_init e (go_defer Stop (world0 e)) = (Some 1, w1)" "run e = (1, run_deferred w1)"
  | (update_fails) w1 w2 where
      "run_init e (go_defer Stop (world0 e)) = (None, w1)"
      "run_update e w1 = (Some 1, w2)" "run e = (1, run_deferred w2)"
  | (app) w1 w2 c w3 where
      "run_init e (go_defer Stop (world0 e)) = (None, w1)"
      "run_update e w1 = (None, w2)" "run_app e w2 = (c, w3)" "run e = (c, run_deferred w3)"
proof -
  let ?w0 = "go_defer Stop (world0 e)"
  obtain r1 w1 where i: "run_init e ?w0 = (r1, w1)"
    by (cases "run_init e ?w0")
  from run_init_result [OF i] show thesis
  proof
    assume "r1 = Some 1 \<and> stderr w1 \<noteq> []"
    with i show thesis
      by (intro init_fails [of w1]) (simp_all add: run_def startup_def)
  next
    assume "r1 = None \<and> stderr w1 = stderr ?w0"
    then have r1: "r1 = None"
      by simp
    obtain r2 w2 where u: "run_update e w1 = (r2, w2)"
      by (cases "run_update e w1")
    from run_update_result [OF u] show thesis
    proof
      assume "r2 = Some 1 \<and> stderr w2 \<noteq> []"
      with i r1 u show thesis
        by (intro update_fails [of w1 w2]) (simp_all add: run_def startup_def)
    next
      assume "r2 = None \<and> stderr w2 = stderr w1"
      then have r2: "r2 = None"
        by simp
      obtain c w3 where a: "run_app e w2 = (c, w3)"
        by (cases "run_app e w2")
      with i r1 u r2 show thesis
        by (intro app [of w1 w2 c w3]) (simp_all add: run_def startup_def)
    qed
  qed
qed

lemma reaches_app_cases:
  assumes "reaches_app e"
  obtains w1 w2 c w3 where
    "run_init e (go_defer Stop (world0 e)) = (None, w1)"
    "run_update e w1 = (None, w2)" "run_app e w2 = (c, w3)" "run e = (c, run_deferred w3)"
proof (cases e rule: run_cases)
  case (init_fails w1)
  with assms show ?thesis
    by (simp add: reaches_app_def startup_def)
next
  case (update_fails w1 w2)
  with assms show ?thesis
    by (simp add: reaches_app_def startup_def)
next
  case (app w1 w2 c w3)
  then show ?thesis
    by (rule that)
qed

lemma no_command_before_app:
  assumes "\<not> reaches_app e"
  shows "filter is_command (trace (snd (run e))) = []"
proof (cases e rule: run_cases)
  case (init_fails w1)
  from run_init_frame [OF init_fails(1)] init_fails(2) show ?thesis
    by simp
next
  case (update_fails w1 w2)
  from run_init_frame [OF update_fails(1)] run_update_frame [OF update_fails(2)]
    update_fails(3)
  show ?thesis
    by simp
next
  case (app w1 w2 c w3)
  with assms show ?thesis
    by (simp add: reaches_app_def startup_def)
qed

subsection \<open>The exit code\<close>

lemma run_init_code:
  "store w = cfgStore e \<Longrightarrow> fst (run_init e w) = (if init_error e then Some 1 else None)"
  by (auto simp: blocks prims Let_def init_error_def step_defs split: sum.splits)

lemma run_update_code:
  "store w = cfgStore e \<Longrightarrow> fst (run_update e w) = (if update_error e then Some 1 else None)"
  by (auto simp: upd_blocks prims update_error_def step_defs since_day configSet_def
      newStamp_def split: sum.splits option.splits)

lemma run_app_code:
  "fst (run_app e w) = (if command_fails e then 1 else 0)"
  by (auto simp: app_blocks prims step_defs Let_def split: sum.splits)

lemma exit_code_trace:
  "exit_code e = (if list_ex is_failure (trace (snd (run e))) then 1 else 0)"
proof -
  let ?w0 = "go_defer Stop (world0 e)"
  have t0: "\<not> list_ex is_failure (trace ?w0)"
    by (simp add: go_defer_def world0_def)
  obtain r w where s: "startup e ?w0 = (r, w)"
    by (cases "startup e ?w0")
  from startup_failure [OF s t0] show ?thesis
  proof
    assume "r = Some 1 \<and> list_ex is_failure (trace w)"
    with s show ?thesis
      by (simp add: exit_code_def run_def run_deferred_def)
  next
    assume ok: "r = None \<and> \<not> list_ex is_failure (trace w)"
    obtain c w' where a: "run_app e w = (c, w')"
      by (cases "run_app e w")
    from run_app_failure [OF a] ok s a show ?thesis
      by (auto simp: exit_code_def run_def run_deferred_def)
  qed
qed

lemma exit_code_steps:
  "exit_code e = (if init_error e \<or> update_error e \<or> command_fails e then 1 else 0)"
proof -
  let ?w0 = "go_defer Stop (world0 e)"
  obtain r1 w1 where i: "run_init e ?w0 = (r1, w1)"
    by (cases "run_init e ?w0")
  from run_init_code [of ?w0 e] i
  have r1: "r1 = (if init_error e then Some 1 else None)"
    by simp
  from run_init_frame [OF i] have st: "store w1 = cfgStore e"
    by simp
  obtain r2 w2 where u: "run_update e w1 = (r2, w2)"
    by (cases "run_update e w1")
  from run_update_code [OF st] u
  have r2: "r2 = (if update_error e then Some 1 else None)"
    by simp
  obtain c w3 where a: "run_app e w2 = (c, w3)"
    by (cases "run_app e w2")
  from run_app_code [of e w2] a
  have c: "c = (if command_fails e then 1 else 0)"
    by simp
  from i r1 u r2 a c show ?thesis
    by (simp add: exit_code_def run_def startup_def)
qed

subsection \<open>The update check, case by case\<close>

lemma run_update_stale:
  assumes "store w ''updateNotify'' = Some (CBool True)"
    and "store w ''lastUpdateCheck'' = Some (CStr s)"
    and "timeParse e s = Inr t"
    and "24 * Hour < nowSince e - t"
  shows "run_update e w =
    check_for_updates e
      (emit (Call (TimeParse s) None)
        (emit (Call (ConfigGet ''lastUpdateCheck'') None)
          (emit (Call (ConfigGet ''updateNotify'') None) w)))"
  using assms
  by (simp add: run_update_def attempt_def configGetBool_def configGetString_def since_day
      emit_def)

lemma check_for_updates_result:
  assumes "check_for_updates e w = (r, w')"
  shows "case configSetErr e ''lastUpdateCheck'' (newStamp e) of
           Some err \<Rightarrow>
             r = Some 1 \<and> store w' = store w \<and> stdout w' = stdout w \<and>
             filter is_upd (trace w') =
               filter is_upd (trace w) @
                 [Call (ConfigSet ''lastUpdateCheck'' (newStamp e)) (Some err)]
         | None \<Rightarrow>
             r = (case updateCheck e of Inl err \<Rightarrow> Some 1 | Inr b \<Rightarrow> None) \<and>
             store w' = (store w)(''lastUpdateCheck'' \<mapsto> newStamp e) \<and>
             filter is_upd (trace w') =
               filter is_upd (trace w) @
                 [Call (ConfigSet ''lastUpdateCheck'' (newStamp e)) None,
                  Call UpdateCheck (outcome (updateCheck e))]"
  using assms
  by (auto simp: check_for_updates_def configSet_def newStamp_def outcome_def prims is_upd_def
      split: option.splits sum.splits if_splits)

lemma run_stale:
  assumes "cfgStore e ''updateNotify'' = Some (CBool True)"
    and "cfgStore e ''lastUpdateCheck'' = Some (CStr s)"
    and "timeParse e s = Inr t"
    and "24 * Hour < nowSince e - t"
    and "reaches_update e"
  shows "case configSetErr e ''lastUpdateCheck'' (newStamp e) of
           Some err \<Rightarrow>
             fst (run e) = 1 \<and> store (snd (run e)) = cfgStore e \<and>
             filter is_upd (trace (snd (run e))) =
               [Call (ConfigSet ''lastUpdateCheck'' (newStamp e)) (Some err)]
         | None \<Rightarrow>
             (case updateCheck e of Inl err \<Rightarrow> fst (run e) = 1 | Inr b \<Rightarrow> True) \<and>
             store (snd (run e)) = (cfgStore e)(''lastUpdateCheck'' \<mapsto> newStamp e) \<and>
             filter is_upd (trace (snd (run e))) =
               [Call (ConfigSet ''lastUpdateCheck'' (newStamp e)) None,
                Call UpdateCheck (outcome (updateCheck e))]"
proof (cases e rule: run_cases)
  case (init_fails w1)
  with assms(5) show ?thesis
    by (simp add: reaches_update_def)
next
  case (update_fails w1 w2)
  from run_init_frame [OF update_fails(1)]
  have f: "store w1 = cfgStore e" "filter is_upd (trace w1) = []"
    by simp_all
  let ?w = "emit (Call (TimeParse s) None)
        (emit (Call (ConfigGet ''lastUpdateCheck'') None)
          (emit (Call (ConfigGet ''updateNotify'') None) w1))"
  have "check_for_updates e ?w = (Some 1, w2)"
    using run_update_stale [of w1 s e t] assms f update_fails(2) by simp
  from check_for_updates_result [OF this] f update_fails(3) show ?thesis
    by (auto simp: emit_def is_upd_def split: option.splits sum.splits)
next
  case (app w1 w2 c w3)
  from run_init_frame [OF app(1)]
  have f: "store w1 = cfgStore e" "filter is_upd (trace w1) = []"
    by simp_all
  let ?w = "emit (Call (TimeParse s) None)
        (emit (Call (ConfigGet ''lastUpdateCheck'') None)
          (emit (Call (ConfigGet ''updateNotify'') None) w1))"
  have "check_for_updates e ?w = (None, w2)"
    using run_update_stale [of w1 s e t] assms f app(2) by simp
  from check_for_updates_result [OF this] f app(4) run_app_frame [OF app(3)] show ?thesis
    by (auto simp: emit_def is_upd_def split: option.splits sum.splits)
qed


lemma run_update_fresh:
  assumes "store w ''lastUpdateCheck'' = Some (CStr s)"
    and "timeParse e s = Inr t"
    and "nowSince e - t < 24 * Hour"
    and "run_update e w = (r, w')"
  shows "store w' = store w \<and> stdout w' = stdout w \<and>
         filter is_upd (trace w') = filter is_upd (trace w)"
proof -
  from assms(3) have "\<not> 24 * Hour < since e t"
    by (simp add: since_day)
  with assms(1,2,4) show ?thesis
    by (auto simp: run_update_def prims configGetString_def is_upd_def
        split: sum.splits if_splits)
qed

lemma run_update_garbled:
  assumes "store w ''updateNotify'' = Some (CBool True)"
    and "store w ''lastUpdateCheck'' = Some (CStr s)"
    and "timeParse e s = Inl perr"
  shows "run_update e w =
    (Some 1,
     eprint (''failed to parse lastUpdateCheck time: '' @ perr @ nl)
       (emit (Call (TimeParse s) (Some perr))
         (emit (Call (ConfigGet ''lastUpdateCheck'') None)
           (emit (Call (ConfigGet ''updateNotify'') None) w))))"
  using assms
  by (simp add: run_update_def attempt_def configGetBool_def configGetString_def emit_def)

lemma run_update_writes:
  assumes "run_update e w = (r, w')"
  shows "(filter is_set (trace w') = filter is_set (trace w) \<and> store w' = store w) \<or>
         (\<exists>x. filter is_set (trace w') =
                 filter is_set (trace w) @ [Call (ConfigSet ''lastUpdateCheck'' (newStamp e)) x] \<and>
              (store w' = store w \<or>
               store w' = (store w)(''lastUpdateCheck'' \<mapsto> newStamp e)))"
  using assms
  by (auto simp: upd_blocks prims configSet_def newStamp_def split: sum.splits if_splits option.splits)

lemma run_writes:
  "(filter is_set (trace (snd (run e))) = [] \<and> store (snd (run e)) = cfgStore e) \<or>
   (\<exists>x. filter is_set (trace (snd (run e))) =
           [Call (ConfigSet ''lastUpdateCheck'' (newStamp e)) x] \<and>
        (store (snd (run e)) = cfgStore e \<or>
         store (snd (run e)) = (cfgStore e)(''lastUpdateCheck'' \<mapsto> newStamp e)))"
proof (cases e rule: run_cases)
  case (init_fails w1)
  from run_init_frame [OF init_fails(1)] init_fails(2)
  show ?thesis
    by simp
next
  case (update_fails w1 w2)
  from run_init_frame [OF update_fails(1)]
  have f: "store w1 = cfgStore e" "filter is_set (trace w1) = []"
    by simp_all
  from run_update_writes [OF update_fails(2)] f update_fails(3) show ?thesis
    by auto
next
  case (app w1 w2 c w3)
  from run_init_frame [OF app(1)]
  have f: "store w1 = cfgStore e" "filter is_set (trace w1) = []"
    by simp_all
  from run_app_frame [OF app(3)]
  have g: "store w3 = store w2" "filter is_set (trace w3) = filter is_set (trace w2)"
    by simp_all
  from run_update_writes [OF app(2)] f g app(4) show ?thesis
    by auto
qed

lemma run_update_off:
  "store w ''updateNotify'' = Some (CBool False) \<Longrightarrow>
     run_update e w = (None, emit (Call (ConfigGet ''updateNotify'') None) w)"
  by (simp add: run_update_def attempt_def configGetBool_def)

subsection \<open>A run does not depend on a timestamp it never reads\<close>

lemma getDataPath_stamp [simp]: "getDataPath (with_stamp x e) = getDataPath e"
  by (simp add: getDataPath_def with_stamp_def split: sum.splits)

lemma with_stamp_simps [simp]:
  "mkdirAll (with_stamp x e) = mkdirAll e"
  "filepathJoin (with_stamp x e) = filepathJoin e"
  "xlogNew (with_stamp x e) = xlogNew e"
  "databaseNew (with_stamp x e) = databaseNew e"
  "configInit (with_stamp x e) = configInit e"
  "logSetLevel (with_stamp x e) = logSetLevel e"
  "cliParse (with_stamp x e) = cliParse e"
  "cmdAction (with_stamp x e) = cmdAction e"
  by (simp_all add: with_stamp_def)

lemma forget_stamp_simps [simp]:
  "emit ev (forget_stamp x w) = forget_stamp x (emit ev w)"
  "eprint s (forget_stamp x w) = forget_stamp x (eprint s w)"
  "go_defer d (forget_stamp x w) = forget_stamp x (go_defer d w)"
  "run_deferred (forget_stamp x w) = forget_stamp x (run_deferred w)"
  "(forget_stamp x w)\<lparr>logger := l\<rparr> = forget_stamp x (w\<lparr>logger := l\<rparr>)"
  "store (forget_stamp x w) ''logLevel'' = store w ''logLevel''"
  "store (forget_stamp x w) ''updateNotify'' = store w ''updateNotify''"
  by (simp_all add: forget_stamp_def emit_def eprint_def go_defer_def run_deferred_def)

lemma attempt_stamp:
  assumes "\<And>v w'. k' v (forget_stamp x w') = (case k v w' of (r, w'') \<Rightarrow> (r, forget_stamp x w''))"
  shows "attempt c r msg k' (forget_stamp x w) =
         (case attempt c r msg k w of (r, w'') \<Rightarrow> (r, forget_stamp x w''))"
  by (cases r) (simp_all add: attempt_def assms)

lemma set_log_level_stamp:
  "set_log_level (with_stamp x e) (forget_stamp x w) =
     (case set_log_level e w of (r, w') \<Rightarrow> (r, forget_stamp x w'))"
  unfolding set_log_level_def configGetString_def
  by (simp add: attempt_stamp)

lemma init_config_stamp:
  "init_config (with_stamp x e) (forget_stamp x w) =
     (case init_config e w of (r, w') \<Rightarrow> (r, forget_stamp x w'))"
  unfolding init_config_def
  by (simp add: attempt_stamp set_log_level_stamp)

lemma init_database_stamp:
  "init_database (with_stamp x e) (forget_stamp x w) =
     (case init_database e w of (r, w') \<Rightarrow> (r, forget_stamp x w'))"
  unfolding init_database_def
  by (simp add: attempt_stamp init_config_stamp)

lemma init_logger_stamp:
  "init_logger (with_stamp x e) p (forget_stamp x w) =
     (case init_logger e p w of (r, w') \<Rightarrow> (r, forget_stamp x w'))"
  unfolding init_logger_def Let_def
  by (simp add: attempt_stamp init_database_stamp)

lemma run_init_stamp:
  "run_init (with_stamp x e) (forget_stamp x w) =
     (case run_init e w of (r, w') \<Rightarrow> (r, forget_stamp x w'))"
  unfolding run_init_def
  by (simp add: attempt_stamp init_logger_stamp)


lemma before_hook_stamp:
  "before_hook (with_stamp x e) flag (forget_stamp x w) =
     (case before_hook e flag w of (r, w') \<Rightarrow> (r, forget_stamp x w'))"
  by (simp add: before_hook_def Let_def split: sum.splits)

lemma app_Run_stamp:
  "app_Run (with_stamp x e) (forget_stamp x w) =
     (case app_Run e w of (r, w') \<Rightarrow> (r, forget_stamp x w'))"
  by (simp add: app_Run_def before_hook_stamp split: sum.splits prod.splits option.splits)

lemma run_app_stamp:
  "run_app (with_stamp x e) (forget_stamp x w) =
     (case run_app e w of (c, w') \<Rightarrow> (c, forget_stamp x w'))"
  by (simp add: run_app_def app_Run_stamp split: prod.splits option.splits)

lemma run_off:
  assumes "cfgStore e ''updateNotify'' = Some (CBool False)"
  shows "run (with_stamp x e) = (case run e of (c, w) \<Rightarrow> (c, forget_stamp x w))"
proof -
  let ?w0 = "go_defer Stop (world0 e)"
  have w0: "go_defer Stop (world0 (with_stamp x e)) = forget_stamp x ?w0"
    by (simp add: go_defer_def world0_def with_stamp_def forget_stamp_def)
  obtain r1 w1 where i: "run_init e ?w0 = (r1, w1)"
    by (cases "run_init e ?w0")
  from run_init_frame [OF i] assms
  have n: "store w1 ''updateNotify'' = Some (CBool False)"
    by simp
  show ?thesis
  proof (cases r1)
    case (Some code)
    with i w0 show ?thesis
      by (simp add: run_def startup_def run_init_stamp)
  next
    case None
    obtain c w3 where a: "run_app e (emit (Call (ConfigGet ''updateNotify'') None) w1) = (c, w3)"
      by (cases "run_app e (emit (Call (ConfigGet ''updateNotify'') None) w1)")
    from None i w0 n a show ?thesis
      by (simp add: run_def startup_def run_init_stamp run_update_off run_app_stamp)
  qed
qed

subsection \<open>Log levels and the command\<close>

lemma run_app_levels:
  assumes "run_app e w = (c, w')" and "cliParse e = Inr flag"
  shows "if cmdString_log flag = DefaultLogLevel then
           logger w' = logger w \<and>
           filter is_level_or_command (trace w') =
             filter is_level_or_command (trace w) @ [Call Command (outcome (cmdAction e))]
         else
           (case logSetLevel e (cmdString_log flag) of
              Inl err \<Rightarrow>
                c = 1 \<and> logger w' = logger w \<and>
                filter is_level_or_command (trace w') =
                  filter is_level_or_command (trace w) @
                    [Call (LogSetLevel (cmdString_log flag)) (Some err)]
            | Inr u \<Rightarrow>
                logger w' = Some (cmdString_log flag) \<and>
                filter is_level_or_command (trace w') =
                  filter is_level_or_command (trace w) @
                    [Call (LogSetLevel (cmdString_log flag)) None,
                     Call Command (outcome (cmdAction e))])"
  using assms
  by (auto simp: app_blocks prims is_level_or_command_def outcome_def Let_def
      split: sum.splits if_splits)

lemma run_levels:
  assumes "reaches_app e" and "cliParse e = Inr flag"
    and "cfgStore e ''logLevel'' = Some (CStr l)"
  shows "if cmdString_log flag = DefaultLogLevel then
           logger (snd (run e)) = Some l \<and>
           filter is_level_or_command (trace (snd (run e))) =
             [Call (LogSetLevel l) None, Call Command (outcome (cmdAction e))]
         else
           (case logSetLevel e (cmdString_log flag) of
              Inl err \<Rightarrow>
                fst (run e) = 1 \<and> logger (snd (run e)) = Some l \<and>
                filter is_level_or_command (trace (snd (run e))) =
                  [Call (LogSetLevel l) None,
                   Call (LogSetLevel (cmdString_log flag)) (Some err)]
            | Inr u \<Rightarrow>
                logger (snd (run e)) = Some (cmdString_log flag) \<and>
                filter is_level_or_command (trace (snd (run e))) =
                  [Call (LogSetLevel l) None,
                   Call (LogSetLevel (cmdString_log flag)) None,
                   Call Command (outcome (cmdAction e))])"
proof -
  from assms(1) obtain w1 w2 c w3 where
    i: "run_init e (go_defer Stop (world0 e)) = (None, w1)" and
    u: "run_update e w1 = (None, w2)" and a: "run_app e w2 = (c, w3)" and
    r: "run e = (c, run_deferred w3)"
    by (rule reaches_app_cases)
  from run_init_levels [OF i] assms(3)
  have "logger w1 = Some l"
    "filter is_level_or_command (trace w1) = [Call (LogSetLevel l) None]"
    by auto
  with run_update_frame [OF u]
  have w2: "logger w2 = Some l"
    "filter is_level_or_command (trace w2) = [Call (LogSetLevel l) None]"
    by simp_all
  from run_app_levels [OF a assms(2)] w2 r show ?thesis
    by (auto split: sum.splits if_splits)
qed

lemma reaches_app_level:
  assumes "reaches_app e"
  shows "\<exists>l. cfgStore e ''logLevel'' = Some (CStr l)"
proof -
  from assms obtain w1 where "run_init e (go_defer Stop (world0 e)) = (None, w1)"
    by (rule reaches_app_cases)
  from run_init_levels [OF this] show ?thesis
    by auto
qed

section \<open>The claims\<close>

text \<open>
  In every statement below \<open>run e\<close> is the pair of the exit code and the final world of
  the run in environment \<open>e\<close>, and \<open>filter p (trace (snd (run e)))\<close> is the sequence, in
  the order they happened, of the calls of kind \<open>p\<close> that \<open>run\<close> made. Only main.go's own
  statements appear in a trace: what a subcommand does inside \<open>app.Run\<close> is not part of
  the sources.
\<close>

text \<open>
  C1. Running as root (effective user ID 0) with an index file that opens and scans
  without error: when the scanner delivers at least two lines, \<open>getDataPath\<close> returns
  the second one unchanged; when it delivers fewer than two, \<open>getDataPath\<close> returns the
  error "malformed index file /var/lib/gotest/index". In both cases the result does
  not depend on the home directory or on how paths are joined, so no path derived
  from the home directory is returned.
\<close>

theorem getDataPath_root_index:
  assumes "geteuid e = 0" and "osOpen e = Inr (toks, None)"
  shows "(2 \<le> length toks \<longrightarrow> getDataPath e = Inr (toks ! 1)) \<and>
         (length toks < 2 \<longrightarrow>
            getDataPath e = Inl ''malformed index file /var/lib/gotest/index'') \<and>
         getDataPath (e\<lparr>userHomeDir := h, filepathJoin := j\<rparr>) = getDataPath e"
  using assms
  by (simp add: getDataPath_def scan_loop_append DataIndexPath_def Name_def)

theorem getDataPath_root_index_witness:
  "geteuid env_root = 0 \<and>
   osOpen env_root = Inr ([''gotest index'', ''/srv/gotest''], None) \<and>
   getDataPath env_root = Inr ''/srv/gotest'' \<and>
   geteuid env_root_short = 0 \<and>
   osOpen env_root_short = Inr ([''gotest index''], None) \<and>
   getDataPath env_root_short = Inl ''malformed index file /var/lib/gotest/index''"
proof -
  have r: "geteuid env_root = 0"
    "osOpen env_root = Inr ([''gotest index'', ''/srv/gotest''], None)"
    by (simp_all add: sample_defs)
  have s: "geteuid env_root_short = 0"
    "osOpen env_root_short = Inr ([''gotest index''], None)"
    by (simp_all add: sample_defs)
  from getDataPath_root_index [OF r] getDataPath_root_index [OF s] r s show ?thesis
    by simp
qed

text \<open>
  C2. In a run where \<open>updateNotify\<close> is true and the stored \<open>lastUpdateCheck\<close> parses to
  an instant more than 24 hours before now, the writes of the config store and the
  update checks that \<open>run\<close> makes are, in order: none at all when startup fails before
  line 105; otherwise the write of the newly formatted time and, only if that write
  succeeded, one update check after it. When the check is made the store already
  holds the new timestamp, and a failed check ends the run with exit code 1 and the new
  timestamp stored.
\<close>

theorem write_precedes_check:
  assumes "cfgStore e ''updateNotify'' = Some (CBool True)"
    and "cfgStore e ''lastUpdateCheck'' = Some (CStr s)"
    and "timeParse e s = Inr t"
    and "24 * Hour < nowSince e - t"
  shows "if reaches_update e then
           (case configSetErr e ''lastUpdateCheck'' (newStamp e) of
              Some err \<Rightarrow>
                filter is_upd (trace (snd (run e))) =
                  [Call (ConfigSet ''lastUpdateCheck'' (newStamp e)) (Some err)] \<and>
                exit_code e = 1
            | None \<Rightarrow>
                filter is_upd (trace (snd (run e))) =
                  [Call (ConfigSet ''lastUpdateCheck'' (newStamp e)) None,
                   Call UpdateCheck (outcome (updateCheck e))] \<and>
                store (snd (run e)) ''lastUpdateCheck'' = Some (newStamp e) \<and>
                (case updateCheck e of Inl err \<Rightarrow> exit_code e = 1 | Inr b \<Rightarrow> True))
         else filter is_upd (trace (snd (run e))) = []"
proof (cases "reaches_update e")
  case True
  from run_stale [OF assms True] True show ?thesis
    by (auto simp: exit_code_def split: option.splits sum.splits)
next
  case False
  then show ?thesis
  proof (cases e rule: run_cases)
    case (init_fails w1)
    from run_init_frame [OF init_fails(1)] init_fails(2) False show ?thesis
      by simp
  next
    case (update_fails w1 w2)
    with False show ?thesis
      by (simp add: reaches_update_def)
  next
    case (app w1 w2 c w3)
    with False show ?thesis
      by (simp add: reaches_update_def)
  qed
qed

theorem write_precedes_check_witness:
  "cfgStore env_offline ''updateNotify'' = Some (CBool True) \<and>
   cfgStore env_offline ''lastUpdateCheck'' = Some (CStr ''2026-10-01T00:00:00Z'') \<and>
   timeParse env_offline ''2026-10-01T00:00:00Z'' = Inr 1790812800000000000 \<and>
   24 * Hour < nowSince env_offline - 1790812800000000000 \<and>
   reaches_update env_offline \<and>
   filter is_upd (trace (snd (run env_offline))) =
     [Call (ConfigSet ''lastUpdateCheck'' (CStr ''2026-10-30T00:00:00Z'')) None,
      Call UpdateCheck (Some ''network unreachable'')] \<and>
   store (snd (run env_offline)) ''lastUpdateCheck'' = Some (CStr ''2026-10-30T00:00:00Z'') \<and>
   exit_code env_offline = 1"
proof -
  have h: "cfgStore env_offline ''updateNotify'' = Some (CBool True)"
    "cfgStore env_offline ''lastUpdateCheck'' = Some (CStr ''2026-10-01T00:00:00Z'')"
    "timeParse env_offline ''2026-10-01T00:00:00Z'' = Inr 1790812800000000000"
    "24 * Hour < nowSince env_offline - 1790812800000000000"
    by (simp_all add: sample_defs Hour_def)
  have r: "reaches_update env_offline"
    by (simp add: reaches_update_def model_defs sample_defs Let_def)
  have v: "configSetErr env_offline ''lastUpdateCheck'' (newStamp env_offline) = None"
    "newStamp env_offline = CStr ''2026-10-30T00:00:00Z''"
    "updateCheck env_offline = Inl ''network unreachable''"
    by (simp_all add: sample_defs newStamp_def)
  from write_precedes_check [OF h] r v h show ?thesis
    by (simp add: outcome_def)
qed

text \<open>
  C3. In a run where the stored \<open>lastUpdateCheck\<close> parses and is less than 24 hours
  before now, \<open>run\<close> makes no update check and no write of the config store, prints
  nothing to standard output, and leaves the whole store, the timestamp included, as
  it was.
\<close>

theorem fresh_stamp_no_check:
  assumes "cfgStore e ''lastUpdateCheck'' = Some (CStr s)"
    and "timeParse e s = Inr t"
    and "nowSince e - t < 24 * Hour"
  shows "filter is_check (trace (snd (run e))) = [] \<and>
         filter is_set (trace (snd (run e))) = [] \<and>
         stdout (snd (run e)) = [] \<and>
         store (snd (run e)) = cfgStore e"
proof -
  have "filter is_upd (trace (snd (run e))) = [] \<and> stdout (snd (run e)) = [] \<and>
      store (snd (run e)) = cfgStore e"
  proof (cases e rule: run_cases)
    case (init_fails w1)
    from run_init_frame [OF init_fails(1)] init_fails(2) show ?thesis
      by simp
  next
    case (update_fails w1 w2)
    from run_init_frame [OF update_fails(1)]
    have f: "store w1 = cfgStore e" "stdout w1 = []" "filter is_upd (trace w1) = []"
      by simp_all
    from run_update_fresh [OF _ assms(2,3) update_fails(2)] f assms(1) update_fails(3)
    show ?thesis
      by simp
  next
    case (app w1 w2 c w3)
    from run_init_frame [OF app(1)]
    have f: "store w1 = cfgStore e" "stdout w1 = []" "filter is_upd (trace w1) = []"
      by simp_all
    from run_update_fresh [OF _ assms(2,3) app(2)] f assms(1) run_app_frame [OF app(3)] app(4)
    show ?thesis
      by simp
  qed
  then show ?thesis
    by (simp add: filter_empty_conv is_upd_def)
qed

theorem fresh_stamp_no_check_witness:
  "cfgStore env_fresh ''lastUpdateCheck'' = Some (CStr ''2026-10-01T00:00:00Z'') \<and>
   timeParse env_fresh ''2026-10-01T00:00:00Z'' = Inr 1790812800000000000 \<and>
   nowSince env_fresh - 1790812800000000000 < 24 * Hour \<and>
   reaches_app env_fresh \<and>
   filter is_check (trace (snd (run env_fresh))) = [] \<and>
   stdout (snd (run env_fresh)) = [] \<and>
   store (snd (run env_fresh)) ''lastUpdateCheck'' = Some (CStr ''2026-10-01T00:00:00Z'')"
proof -
  have h: "cfgStore env_fresh ''lastUpdateCheck'' = Some (CStr ''2026-10-01T00:00:00Z'')"
    "timeParse env_fresh ''2026-10-01T00:00:00Z'' = Inr 1790812800000000000"
    "nowSince env_fresh - 1790812800000000000 < 24 * Hour"
    by (simp_all add: sample_defs Hour_def)
  have r: "reaches_app env_fresh"
    by (simp add: reaches_app_def model_defs sample_defs Let_def)
  from fresh_stamp_no_check [OF h] h r show ?thesis
    by simp
qed

text \<open>
  C4, as stated, fails: with \<open>updateNotify\<close> false the block of line 111 is skipped, so
  a timestamp more than 24 hours old is neither replaced nor followed by a check, and
  the run ends with exit code 0.
\<close>

theorem stale_stamp_unchecked_counterexample:
  "cfgStore env_quiet ''lastUpdateCheck'' = Some (CStr ''2026-10-01T00:00:00Z'') \<and>
   timeParse env_quiet ''2026-10-01T00:00:00Z'' = Inr 1790812800000000000 \<and>
   24 * Hour < nowSince env_quiet - 1790812800000000000 \<and>
   exit_code env_quiet = 0 \<and>
   filter is_check (trace (snd (run env_quiet))) = [] \<and>
   filter is_set (trace (snd (run env_quiet))) = [] \<and>
   store (snd (run env_quiet)) ''lastUpdateCheck'' = Some (CStr ''2026-10-01T00:00:00Z'')"
  by (simp add: model_defs sample_defs Let_def)

text \<open>
  C4, amended. In a run that reaches the update block (line 105) with \<open>updateNotify\<close>
  true and a stored \<open>lastUpdateCheck\<close> that parses to an instant more than 24 hours
  before now, \<open>config.Set\<close> is called exactly once, on \<open>lastUpdateCheck\<close> with the newly
  formatted time. When that write succeeds, the stored timestamp is the new one and
  the update check is made exactly once; when it fails, the stored timestamp is the
  old one, no check is made and the exit code is 1.
\<close>

theorem stale_stamp_checked_once:
  assumes "cfgStore e ''updateNotify'' = Some (CBool True)"
    and "cfgStore e ''lastUpdateCheck'' = Some (CStr s)"
    and "timeParse e s = Inr t"
    and "24 * Hour < nowSince e - t"
    and "reaches_update e"
  shows "filter is_set (trace (snd (run e))) =
           [Call (ConfigSet ''lastUpdateCheck'' (newStamp e))
              (configSetErr e ''lastUpdateCheck'' (newStamp e))] \<and>
         (case configSetErr e ''lastUpdateCheck'' (newStamp e) of
            None \<Rightarrow>
              store (snd (run e)) ''lastUpdateCheck'' = Some (newStamp e) \<and>
              length (filter is_check (trace (snd (run e)))) = 1
          | Some err \<Rightarrow>
              store (snd (run e)) ''lastUpdateCheck'' = Some (CStr s) \<and>
              filter is_check (trace (snd (run e))) = [] \<and> exit_code e = 1)"
proof (cases "configSetErr e ''lastUpdateCheck'' (newStamp e)")
  case None
  with run_stale [OF assms]
  have u: "filter is_upd (trace (snd (run e))) =
      [Call (ConfigSet ''lastUpdateCheck'' (newStamp e)) None,
       Call UpdateCheck (outcome (updateCheck e))]"
    and st: "store (snd (run e)) = (cfgStore e)(''lastUpdateCheck'' \<mapsto> newStamp e)"
    by simp_all
  from filter_set_upd [OF u] filter_check_upd [OF u] st None
  show ?thesis
    by simp
next
  case (Some err)
  with run_stale [OF assms]
  have u: "filter is_upd (trace (snd (run e))) =
      [Call (ConfigSet ''lastUpdateCheck'' (newStamp e)) (Some err)]"
    and st: "store (snd (run e)) = cfgStore e" and c: "fst (run e) = 1"
    by simp_all
  from filter_set_upd [OF u] filter_check_upd [OF u] st c Some assms(2)
  show ?thesis
    by (simp add: exit_code_def)
qed

theorem stale_stamp_checked_once_witness:
  "cfgStore env_user ''updateNotify'' = Some (CBool True) \<and>
   cfgStore env_user ''lastUpdateCheck'' = Some (CStr ''2026-10-01T00:00:00Z'') \<and>
   timeParse env_user ''2026-10-01T00:00:00Z'' = Inr 1790812800000000000 \<and>
   24 * Hour < nowSince env_user - 1790812800000000000 \<and>
   reaches_update env_user \<and>
   filter is_set (trace (snd (run env_user))) =
     [Call (ConfigSet ''lastUpdateCheck'' (CStr ''2026-10-30T00:00:00Z'')) None] \<and>
   store (snd (run env_user)) ''lastUpdateCheck'' = Some (CStr ''2026-10-30T00:00:00Z'') \<and>
   length (filter is_check (trace (snd (run env_user)))) = 1"
proof -
  have h: "cfgStore env_user ''updateNotify'' = Some (CBool True)"
    "cfgStore env_user ''lastUpdateCheck'' = Some (CStr ''2026-10-01T00:00:00Z'')"
    "timeParse env_user ''2026-10-01T00:00:00Z'' = Inr 1790812800000000000"
    "24 * Hour < nowSince env_user - 1790812800000000000"
    by (simp_all add: sample_defs Hour_def)
  have r: "reaches_update env_user"
    by (simp add: reaches_update_def model_defs sample_defs Let_def)
  have v: "configSetErr env_user ''lastUpdateCheck'' (newStamp env_user) = None"
    "newStamp env_user = CStr ''2026-10-30T00:00:00Z''"
    by (simp_all add: sample_defs newStamp_def)
  from stale_stamp_checked_once [OF h r] r v h show ?thesis
    by simp
qed

text \<open>
  C5, as stated, fails: with \<open>updateNotify\<close> false the stored timestamp is never read,
  so a value that is not a valid RFC3339 timestamp causes no error; nothing is printed
  to standard error and the exit code is 0.
\<close>

theorem invalid_stamp_ignored_counterexample:
  "cfgStore env_garbled ''lastUpdateCheck'' = Some (CStr ''yesterday'') \<and>
   timeParse env_garbled ''yesterday'' = Inl ''cannot parse'' \<and>
   exit_code env_garbled = 0 \<and>
   stderr (snd (run env_garbled)) = []"
  by (simp add: model_defs sample_defs Let_def)

text \<open>
  C5, amended. In a run where \<open>updateNotify\<close> is true and the stored \<open>lastUpdateCheck\<close>
  is a string that \<open>time.Parse\<close> rejects, startup fails: something is printed to
  standard error, the exit code is 1, no write of the store, no update check and no
  command take place; when the run reaches the update block, what is printed is
  exactly "failed to parse lastUpdateCheck time: " followed by the parser's error and
  a newline. \<open>run\<close> is a total function: it returns on every environment.
\<close>

theorem invalid_stamp_fatal:
  assumes "cfgStore e ''updateNotify'' = Some (CBool True)"
    and "cfgStore e ''lastUpdateCheck'' = Some (CStr s)"
    and "timeParse e s = Inl perr"
  shows "exit_code e = 1 \<and> stderr (snd (run e)) \<noteq> [] \<and>
         filter is_upd (trace (snd (run e))) = [] \<and>
         filter is_command (trace (snd (run e))) = [] \<and>
         (if reaches_update e
          then stderr (snd (run e)) = [''failed to parse lastUpdateCheck time: '' @ perr @ nl]
          else True)"
proof (cases e rule: run_cases)
  case (init_fails w1)
  from run_init_frame [OF init_fails(1)] run_init_result [OF init_fails(1)] init_fails
  show ?thesis
    by (simp add: exit_code_def reaches_update_def)
next
  case (update_fails w1 w2)
  from run_init_frame [OF update_fails(1)] run_init_result [OF update_fails(1)]
  have f: "store w1 = cfgStore e" "stderr w1 = []" "filter is_upd (trace w1) = []"
    "filter is_command (trace w1) = []"
    by simp_all
  from run_update_garbled [of w1 s e perr] assms f update_fails(2)
  have "w2 = eprint (''failed to parse lastUpdateCheck time: '' @ perr @ nl)
       (emit (Call (TimeParse s) (Some perr))
         (emit (Call (ConfigGet ''lastUpdateCheck'') None)
           (emit (Call (ConfigGet ''updateNotify'') None) w1)))"
    by simp
  with f update_fails(1,3) show ?thesis
    by (simp add: exit_code_def reaches_update_def emit_def eprint_def is_upd_def)
next
  case (app w1 w2 c w3)
  from run_init_frame [OF app(1)]
  have f: "store w1 = cfgStore e"
    by simp
  from run_update_garbled [of w1 s e perr] assms f app(2) show ?thesis
    by simp
qed

theorem invalid_stamp_fatal_witness:
  "cfgStore env_garbled_notify ''updateNotify'' = Some (CBool True) \<and>
   cfgStore env_garbled_notify ''lastUpdateCheck'' = Some (CStr ''yesterday'') \<and>
   timeParse env_garbled_notify ''yesterday'' = Inl ''cannot parse'' \<and>
   reaches_update env_garbled_notify \<and>
   exit_code env_garbled_notify = 1 \<and>
   stderr (snd (run env_garbled_notify)) =
     [''failed to parse lastUpdateCheck time: cannot parse'' @ nl]"
proof -
  have h: "cfgStore env_garbled_notify ''updateNotify'' = Some (CBool True)"
    "cfgStore env_garbled_notify ''lastUpdateCheck'' = Some (CStr ''yesterday'')"
    "timeParse env_garbled_notify ''yesterday'' = Inl ''cannot parse''"
    by (simp_all add: sample_defs)
  have r: "reaches_update env_garbled_notify"
    by (simp add: reaches_update_def model_defs sample_defs Let_def)
  from invalid_stamp_fatal [OF h] h r show ?thesis
    by simp
qed

text \<open>
  C6. The exit code is 1 exactly when a step of \<open>run\<close> returns an error, and 0
  otherwise. The steps are read off the environment: path resolution, creation of the
  data and log directories, the logger (its creation and the level from the config
  store), the database, config initialisation, the config reads, the parse of the
  timestamp, its write and the update check when the check is due, and the CLI
  application (argument parsing, the level of \<open>--log\<close>, the command). Equally, the exit
  code is 1 exactly when a call recorded in the trace returned an error.
\<close>

theorem exit_code_one_iff_step_error:
  "exit_code e =
     (if path_resolution_fails e \<or> directory_creation_fails e \<or> logger_fails e \<or>
         database_fails e \<or> config_init_fails e \<or> config_read_fails e \<or>
         stamp_parse_fails e \<or> stamp_write_fails e \<or> update_check_fails e \<or>
         command_fails e
      then 1 else 0) \<and>
   (list_ex is_failure (trace (snd (run e))) \<longleftrightarrow> exit_code e = 1)"
proof
  have "init_error e \<or> update_error e \<or> command_fails e \<longleftrightarrow>
      path_resolution_fails e \<or> directory_creation_fails e \<or> logger_fails e \<or>
      database_fails e \<or> config_init_fails e \<or> config_read_fails e \<or>
      stamp_parse_fails e \<or> stamp_write_fails e \<or> update_check_fails e \<or>
      command_fails e"
    unfolding init_error_def update_error_def config_read_fails_def
    by blast
  with exit_code_steps [of e]
  show "exit_code e =
     (if path_resolution_fails e \<or> directory_creation_fails e \<or> logger_fails e \<or>
         database_fails e \<or> config_init_fails e \<or> config_read_fails e \<or>
         stamp_parse_fails e \<or> stamp_write_fails e \<or> update_check_fails e \<or>
         command_fails e
      then 1 else 0)"
    by simp
next
  from exit_code_trace [of e]
  show "list_ex is_failure (trace (snd (run e))) \<longleftrightarrow> exit_code e = 1"
    by (simp split: if_splits)
qed

theorem exit_code_one_iff_step_error_witness:
  "\<not> path_resolution_fails env_user \<and> \<not> directory_creation_fails env_user \<and>
   \<not> logger_fails env_user \<and> \<not> database_fails env_user \<and>
   \<not> config_init_fails env_user \<and> \<not> config_read_fails env_user \<and>
   \<not> stamp_parse_fails env_user \<and> \<not> stamp_write_fails env_user \<and>
   \<not> update_check_fails env_user \<and> \<not> command_fails env_user \<and>
   exit_code env_user = 0 \<and>
   update_check_fails env_offline \<and> exit_code env_offline = 1 \<and>
   database_fails env_nodb \<and> exit_code env_nodb = 1 \<and>
   command_fails env_badcmd \<and> exit_code env_badcmd = 1"
proof -
  have u: "\<not> path_resolution_fails env_user" "\<not> directory_creation_fails env_user"
    "\<not> logger_fails env_user" "\<not> database_fails env_user"
    "\<not> config_init_fails env_user" "\<not> config_read_fails env_user"
    "\<not> stamp_parse_fails env_user" "\<not> stamp_write_fails env_user"
    "\<not> update_check_fails env_user" "\<not> command_fails env_user"
    by (simp_all add: step_defs sample_defs getDataPath_def configGetString_def
        configGetBool_def cmdString_log_def DefaultLogLevel_def newStamp_def)
  have f: "update_check_fails env_offline" "database_fails env_nodb"
    "command_fails env_badcmd"
    by (simp_all add: step_defs sample_defs configGetString_def
        configGetBool_def Hour_def)
  from exit_code_one_iff_step_error [of env_user] exit_code_one_iff_step_error [of env_offline]
    exit_code_one_iff_step_error [of env_nodb] exit_code_one_iff_step_error [of env_badcmd]
    u f
  show ?thesis
    by simp
qed

text \<open>
  C7. In a run started with \<open>--log debug\<close>: when startup reaches the CLI application,
  the level loaded from the config store is set first, then the \<open>Before\<close> hook calls
  \<open>log.SetLevel\<close> with "debug", and only after that call has succeeded does the command
  execute, with the logger at level debug, where it stays to the end of the run. (If the
  logger rejects the level, no command executes and the exit code is 1.) When startup
  does not reach the application, no command executes at all.
\<close>

theorem log_flag_debug_overrides:
  assumes "cliParse e = Inr (Some ''debug'')"
  shows "if reaches_app e then
           (\<exists>l. cfgStore e ''logLevel'' = Some (CStr l) \<and>
              (case logSetLevel e ''debug'' of
                 Inr u \<Rightarrow>
                   filter is_level_or_command (trace (snd (run e))) =
                     [Call (LogSetLevel l) None, Call (LogSetLevel ''debug'') None,
                      Call Command (outcome (cmdAction e))] \<and>
                   logger (snd (run e)) = Some ''debug''
               | Inl err \<Rightarrow>
                   filter is_level_or_command (trace (snd (run e))) =
                     [Call (LogSetLevel l) None, Call (LogSetLevel ''debug'') (Some err)] \<and>
                   exit_code e = 1))
         else filter is_command (trace (snd (run e))) = []"
proof (cases "reaches_app e")
  case True
  from reaches_app_level [OF True] obtain l where l: "cfgStore e ''logLevel'' = Some (CStr l)"
    by blast
  from run_levels [OF True assms l] l True show ?thesis
    by (simp add: cmdString_log_def DefaultLogLevel_def exit_code_def split: sum.splits)
next
  case False
  with no_command_before_app [OF False] show ?thesis
    by simp
qed

theorem log_flag_debug_overrides_witness:
  "cliParse env_debug_flag = Inr (Some ''debug'') \<and>
   reaches_app env_debug_flag \<and>
   cfgStore env_debug_flag ''logLevel'' = Some (CStr ''info'') \<and>
   logSetLevel env_debug_flag ''debug'' = Inr () \<and>
   filter is_level_or_command (trace (snd (run env_debug_flag))) =
     [Call (LogSetLevel ''info'') None, Call (LogSetLevel ''debug'') None,
      Call Command None] \<and>
   logger (snd (run env_debug_flag)) = Some ''debug''"
proof -
  have h: "cliParse env_debug_flag = Inr (Some ''debug'')"
    by (simp add: sample_defs)
  have r: "reaches_app env_debug_flag"
    by (simp add: reaches_app_def model_defs sample_defs Let_def)
  have v: "cfgStore env_debug_flag ''logLevel'' = Some (CStr ''info'')"
    "logSetLevel env_debug_flag ''debug'' = Inr ()"
    "cmdAction env_debug_flag = Inr ()"
    by (simp_all add: sample_defs)
  from log_flag_debug_overrides [OF h] h r v show ?thesis
    by (simp add: outcome_def)
qed

text \<open>
  C8. Every write of the config store that \<open>run\<close> makes is a write of
  \<open>lastUpdateCheck\<close> with the current time as formatted by \<open>time.Format\<close>; at the end of
  the run the store is either as it was or differs by exactly that value under that
  key. Hence, provided \<open>time.Parse\<close> accepts what \<open>time.Format\<close> produced for the current
  time, a store whose timestamp parsed before the run has a timestamp that parses
  after it.
\<close>

theorem stamp_written_is_formatted_now:
  "(\<forall>ev \<in> set (trace (snd (run e))).
      is_set ev \<longrightarrow> (\<exists>x. ev = Call (ConfigSet ''lastUpdateCheck'' (newStamp e)) x)) \<and>
   (store (snd (run e)) = cfgStore e \<or>
    store (snd (run e)) = (cfgStore e)(''lastUpdateCheck'' \<mapsto> newStamp e)) \<and>
   (stamp_valid e (cfgStore e) \<and> parses e (timeFormat e (nowSet e)) \<longrightarrow>
      stamp_valid e (store (snd (run e))))"
proof (intro conjI ballI impI)
  fix ev
  assume ev: "ev \<in> set (trace (snd (run e)))" "is_set ev"
  from run_writes [of e] set_events [OF ev]
  show "\<exists>x. ev = Call (ConfigSet ''lastUpdateCheck'' (newStamp e)) x"
    by fastforce
next
  from run_writes [of e]
  show "store (snd (run e)) = cfgStore e \<or>
    store (snd (run e)) = (cfgStore e)(''lastUpdateCheck'' \<mapsto> newStamp e)"
    by auto
next
  assume a: "stamp_valid e (cfgStore e) \<and> parses e (timeFormat e (nowSet e))"
  from run_writes [of e]
  have "store (snd (run e)) = cfgStore e \<or>
    store (snd (run e)) = (cfgStore e)(''lastUpdateCheck'' \<mapsto> newStamp e)"
    by auto
  then show "stamp_valid e (store (snd (run e)))"
  proof
    assume "store (snd (run e)) = cfgStore e"
    with a show ?thesis
      by simp
  next
    assume "store (snd (run e)) = (cfgStore e)(''lastUpdateCheck'' \<mapsto> newStamp e)"
    with a show ?thesis
      by (simp add: stamp_valid_def parses_def newStamp_def)
  qed
qed

theorem stamp_written_is_formatted_now_witness:
  "Call (ConfigSet ''lastUpdateCheck'' (CStr ''2026-10-30T00:00:00Z'')) None
     \<in> set (trace (snd (run env_user))) \<and>
   stamp_valid env_user (cfgStore env_user) \<and>
   parses env_user (timeFormat env_user (nowSet env_user)) \<and>
   store (snd (run env_user)) ''lastUpdateCheck'' = Some (CStr ''2026-10-30T00:00:00Z'') \<and>
   stamp_valid env_user (store (snd (run env_user)))"
proof -
  have h: "stamp_valid env_user (cfgStore env_user)"
    "parses env_user (timeFormat env_user (nowSet env_user))"
    by (simp_all add: stamp_valid_def parses_def sample_defs)
  have t: "Call (ConfigSet ''lastUpdateCheck'' (CStr ''2026-10-30T00:00:00Z'')) None
     \<in> set (trace (snd (run env_user)))"
    "store (snd (run env_user)) ''lastUpdateCheck'' = Some (CStr ''2026-10-30T00:00:00Z'')"
    by (simp_all add: model_defs sample_defs Let_def)
  from stamp_written_is_formatted_now [of env_user] h t show ?thesis
    by simp
qed

text \<open>
  C9. In a run where \<open>updateNotify\<close> is false, \<open>run\<close> neither reads nor parses
  \<open>lastUpdateCheck\<close>, writes nothing to the store and makes no update check; when it
  reaches the update block it goes on to the CLI application. The run is the same
  whatever is stored under \<open>lastUpdateCheck\<close> (a malformed value, or none at all): same
  exit code, same output, same calls, and the stored value itself untouched.
\<close>

theorem notify_off_skips_block:
  assumes "cfgStore e ''updateNotify'' = Some (CBool False)"
  shows "filter reads_stamp (trace (snd (run e))) = [] \<and>
         filter is_upd (trace (snd (run e))) = [] \<and>
         store (snd (run e)) = cfgStore e \<and>
         (if reaches_update e then reaches_app e else exit_code e = 1) \<and>
         run (with_stamp x e) = (case run e of (c, w) \<Rightarrow> (c, forget_stamp x w))"
proof (intro conjI)
  show "run (with_stamp x e) = (case run e of (c, w) \<Rightarrow> (c, forget_stamp x w))"
    using assms by (rule run_off)
next
  have "filter reads_stamp (trace (snd (run e))) = [] \<and>
      filter is_upd (trace (snd (run e))) = [] \<and>
      store (snd (run e)) = cfgStore e \<and>
      (if reaches_update e then reaches_app e else exit_code e = 1)"
  proof (cases e rule: run_cases)
    case (init_fails w1)
    from run_init_frame [OF init_fails(1)] init_fails show ?thesis
      by (simp add: reaches_update_def exit_code_def)
  next
    case (update_fails w1 w2)
    from run_init_frame [OF update_fails(1)] assms
    have "store w1 ''updateNotify'' = Some (CBool False)"
      by simp
    from run_update_off [OF this, of e] update_fails(2) show ?thesis
      by simp
  next
    case (app w1 w2 c w3)
    from run_init_frame [OF app(1)] assms
    have f: "store w1 = cfgStore e" "filter is_upd (trace w1) = []"
      "filter reads_stamp (trace w1) = []"
      and "store w1 ''updateNotify'' = Some (CBool False)"
      by simp_all
    from run_update_off [OF this(4), of e] app(2)
    have w2: "w2 = emit (Call (ConfigGet ''updateNotify'') None) w1"
      by simp
    from run_app_frame [OF app(3)] f w2 app(1,2,4) show ?thesis
      by (simp add: emit_def is_upd_def reaches_update_def reaches_app_def startup_def)
  qed
  then show "filter reads_stamp (trace (snd (run e))) = []"
    and "filter is_upd (trace (snd (run e))) = []"
    and "store (snd (run e)) = cfgStore e"
    and "if reaches_update e then reaches_app e else exit_code e = 1"
    by simp_all
qed

theorem notify_off_skips_block_witness:
  "cfgStore env_garbled ''updateNotify'' = Some (CBool False) \<and>
   cfgStore env_garbled ''lastUpdateCheck'' = Some (CStr ''yesterday'') \<and>
   \<not> parses env_garbled ''yesterday'' \<and>
   reaches_update env_garbled \<and> reaches_app env_garbled \<and>
   filter reads_stamp (trace (snd (run env_garbled))) = [] \<and>
   exit_code env_garbled = 0 \<and>
   run (with_stamp None env_garbled) =
     (exit_code env_garbled, forget_stamp None (snd (run env_garbled)))"
proof -
  have h: "cfgStore env_garbled ''updateNotify'' = Some (CBool False)"
    by (simp add: sample_defs)
  have r: "reaches_update env_garbled" "exit_code env_garbled = 0"
    "cfgStore env_garbled ''lastUpdateCheck'' = Some (CStr ''yesterday'')"
    "\<not> parses env_garbled ''yesterday''"
    by (simp_all add: reaches_update_def parses_def model_defs sample_defs Let_def)
  from notify_off_skips_block [OF h, of None] h r show ?thesis
    by (simp add: exit_code_def split: prod.splits)
qed

text \<open>
  C10. In a run started with \<open>--log warn\<close>, the value of the flag equals the built-in
  default, so the \<open>Before\<close> hook returns without calling \<open>log.SetLevel\<close> and without
  touching anything. When startup reaches the CLI application, the only level ever set
  is the one loaded from the config store, and it is the logger's level when the
  command executes and at the end of the run.
\<close>

theorem log_flag_warn_keeps_config_level:
  assumes "cliParse e = Inr (Some ''warn'')"
  shows "before_hook e (Some ''warn'') w = (None, w) \<and>
         (if reaches_app e then
            (\<exists>l. cfgStore e ''logLevel'' = Some (CStr l) \<and>
               filter is_level_or_command (trace (snd (run e))) =
                 [Call (LogSetLevel l) None, Call Command (outcome (cmdAction e))] \<and>
               logger (snd (run e)) = Some l)
          else filter is_command (trace (snd (run e))) = [])"
proof (cases "reaches_app e")
  case True
  from reaches_app_level [OF True] obtain l where l: "cfgStore e ''logLevel'' = Some (CStr l)"
    by blast
  from run_levels [OF True assms l] l True show ?thesis
    by (simp add: cmdString_log_def DefaultLogLevel_def before_hook_def)
next
  case False
  with no_command_before_app [OF False] show ?thesis
    by (simp add: cmdString_log_def DefaultLogLevel_def before_hook_def)
qed

theorem log_flag_warn_keeps_config_level_witness:
  "cliParse env_warn_flag = Inr (Some ''warn'') \<and>
   reaches_app env_warn_flag \<and>
   cfgStore env_warn_flag ''logLevel'' = Some (CStr ''debug'') \<and>
   filter is_level_or_command (trace (snd (run env_warn_flag))) =
     [Call (LogSetLevel ''debug'') None, Call Command None] \<and>
   logger (snd (run env_warn_flag)) = Some ''debug''"
proof -
  have h: "cliParse env_warn_flag = Inr (Some ''warn'')"
    by (simp add: sample_defs)
  have r: "reaches_app env_warn_flag"
    by (simp add: reaches_app_def model_defs sample_defs Let_def)
  have v: "cfgStore env_warn_flag ''logLevel'' = Some (CStr ''debug'')"
    "cmdAction env_warn_flag = Inr ()"
    by (simp_all add: sample_defs)
  from log_flag_warn_keeps_config_level [OF h] h r v show ?thesis
    by (simp add: outcome_def)
qed

end
